theory Spec2Isabelle
  imports Complex_Main "HOL-Library.Extended_Nat" "HOL-Library.Product_Lexorder"
begin

section \<open>Workflow graphs\<close>

text \<open>
  A workflow is the Python dict the builders of \<^verbatim>\<open>scripts/generate_api.py\<close> return: node id
  to a node with a \<^verbatim>\<open>class_type\<close> and an \<^verbatim>\<open>inputs\<close> dict. An input is a literal (string,
  int, float, bool) or the two-element list \<^verbatim>\<open>[producer_id, slot]\<close>. Dicts are association
  lists in the order the literal writes them; the float literals of the source (3.5, 1.0,
  8.0, 4.5, 16.0) are kept as rationals.
\<close>

datatype val =
    VStr string
  | VInt int
  | VFloat rat
  | VBool bool
  | VLink string nat

record node =
  class_type :: string
  inputs :: "(string \<times> val) list"

type_synonym workflow = "(string \<times> node) list"

definition mk_node :: "string \<Rightarrow> (string \<times> val) list \<Rightarrow> node" where
  "mk_node c ins = \<lparr>class_type = c, inputs = ins\<rparr>"

definition input_of :: "workflow \<Rightarrow> string \<Rightarrow> string \<Rightarrow> val option" where
  "input_of g k p = (case map_of g k of None \<Rightarrow> None | Some n \<Rightarrow> map_of (inputs n) p)"

subsection \<open>Per-server model file names\<close>

definition NEUMANN_MODELS :: "string \<rightharpoonup> string" where
  "NEUMANN_MODELS = map_of
     [(''flux_dev_unet'', ''flux1-dev-fp8-e4m3fn.safetensors''),
      (''flux_schnell_unet'', ''flux1-schnell-fp8-e4m3fn.safetensors''),
      (''t5xxl'', ''t5xxl_fp8_e4m3fn.safetensors'')]"

subsection \<open>Builders\<close>

text \<open>\<^verbatim>\<open>models["flux_dev_unet"]\<close> is a lookup of a key that the table has; \<open>the\<close> is applied
  to a \<open>Some\<close> only.\<close>

definition workflow_flux_dev :: "string \<Rightarrow> int \<Rightarrow> int \<Rightarrow> int \<Rightarrow> workflow" where
  "workflow_flux_dev prompt width height seed =
    [(''1'', mk_node ''UNETLoader''
        [(''unet_name'', VStr (the (NEUMANN_MODELS ''flux_dev_unet''))),
         (''weight_dtype'', VStr ''fp8_e4m3fn'')]),
     (''2'', mk_node ''DualCLIPLoader''
        [(''clip_name1'', VStr ''clip_l.safetensors''),
         (''clip_name2'', VStr (the (NEUMANN_MODELS ''t5xxl''))),
         (''type'', VStr ''flux'')]),
     (''3'', mk_node ''CLIPTextEncode''
        [(''text'', VStr prompt), (''clip'', VLink ''2'' 0)]),
     (''4'', mk_node ''CLIPTextEncode''
        [(''text'', VStr []), (''clip'', VLink ''2'' 0)]),
     (''5'', mk_node ''FluxGuidance''
        [(''guidance'', VFloat (7 / 2)), (''conditioning'', VLink ''3'' 0)]),
     (''6'', mk_node ''EmptySD3LatentImage''
        [(''width'', VInt width), (''height'', VInt height), (''batch_size'', VInt 1)]),
     (''7'', mk_node ''KSampler''
        [(''seed'', VInt seed), (''steps'', VInt 20), (''cfg'', VFloat 1),
         (''sampler_name'', VStr ''euler''), (''scheduler'', VStr ''simple''),
         (''denoise'', VFloat 1),
         (''model'', VLink ''1'' 0), (''positive'', VLink ''5'' 0),
         (''negative'', VLink ''4'' 0), (''latent_image'', VLink ''6'' 0)]),
     (''8'', mk_node ''VAELoader''
        [(''vae_name'', VStr ''ae.safetensors'')]),
     (''9'', mk_node ''VAEDecode''
        [(''samples'', VLink ''7'' 0), (''vae'', VLink ''8'' 0)]),
     (''10'', mk_node ''SaveImage''
        [(''filename_prefix'', VStr ''gentest''), (''images'', VLink ''9'' 0)])]"

definition workflow_flux_schnell :: "string \<Rightarrow> int \<Rightarrow> int \<Rightarrow> int \<Rightarrow> workflow" where
  "workflow_flux_schnell prompt width height seed =
    [(''1'', mk_node ''UNETLoader''
        [(''unet_name'', VStr (the (NEUMANN_MODELS ''flux_schnell_unet''))),
         (''weight_dtype'', VStr ''fp8_e4m3fn'')]),
     (''2'', mk_node ''DualCLIPLoader''
        [(''clip_name1'', VStr ''clip_l.safetensors''),
         (''clip_name2'', VStr (the (NEUMANN_MODELS ''t5xxl''))),
         (''type'', VStr ''flux'')]),
     (''3'', mk_node ''CLIPTextEncode''
        [(''text'', VStr prompt), (''clip'', VLink ''2'' 0)]),
     (''4'', mk_node ''CLIPTextEncode''
        [(''text'', VStr []), (''clip'', VLink ''2'' 0)]),
     (''5'', mk_node ''EmptySD3LatentImage''
        [(''width'', VInt width), (''height'', VInt height), (''batch_size'', VInt 1)]),
     (''6'', mk_node ''KSampler''
        [(''seed'', VInt seed), (''steps'', VInt 4), (''cfg'', VFloat 1),
         (''sampler_name'', VStr ''euler''), (''scheduler'', VStr ''simple''),
         (''denoise'', VFloat 1),
         (''model'', VLink ''1'' 0), (''positive'', VLink ''3'' 0),
         (''negative'', VLink ''4'' 0), (''latent_image'', VLink ''5'' 0)]),
     (''7'', mk_node ''VAELoader''
        [(''vae_name'', VStr ''ae.safetensors'')]),
     (''8'', mk_node ''VAEDecode''
        [(''samples'', VLink ''6'' 0), (''vae'', VLink ''7'' 0)]),
     (''9'', mk_node ''SaveImage''
        [(''filename_prefix'', VStr ''gentest''), (''images'', VLink ''8'' 0)])]"

definition workflow_sd35 :: "string \<Rightarrow> string \<Rightarrow> int \<Rightarrow> int \<Rightarrow> int \<Rightarrow> workflow" where
  "workflow_sd35 prompt neg_prompt width height seed =
    [(''1'', mk_node ''CheckpointLoaderSimple''
        [(''ckpt_name'', VStr ''sd3.5_large_fp8_scaled.safetensors'')]),
     (''2'', mk_node ''CLIPTextEncode''
        [(''text'', VStr prompt), (''clip'', VLink ''1'' 1)]),
     (''3'', mk_node ''CLIPTextEncode''
        [(''text'', VStr neg_prompt), (''clip'', VLink ''1'' 1)]),
     (''4'', mk_node ''EmptySD3LatentImage''
        [(''width'', VInt width), (''height'', VInt height), (''batch_size'', VInt 1)]),
     (''5'', mk_node ''KSampler''
        [(''seed'', VInt seed), (''steps'', VInt 28), (''cfg'', VFloat (9 / 2)),
         (''sampler_name'', VStr ''euler''), (''scheduler'', VStr ''normal''),
         (''denoise'', VFloat 1),
         (''model'', VLink ''1'' 0), (''positive'', VLink ''2'' 0),
         (''negative'', VLink ''3'' 0), (''latent_image'', VLink ''4'' 0)]),
     (''6'', mk_node ''VAEDecode''
        [(''samples'', VLink ''5'' 0), (''vae'', VLink ''1'' 2)]),
     (''7'', mk_node ''SaveImage''
        [(''filename_prefix'', VStr ''gentest''), (''images'', VLink ''6'' 0)])]"

definition workflow_z_turbo :: "string \<Rightarrow> int \<Rightarrow> int \<Rightarrow> int \<Rightarrow> workflow" where
  "workflow_z_turbo prompt width height seed =
    [(''1'', mk_node ''UNETLoader''
        [(''unet_name'', VStr ''z_image_turbo_bf16.safetensors''),
         (''weight_dtype'', VStr ''default'')]),
     (''2'', mk_node ''CLIPLoader''
        [(''clip_name'', VStr ''qwen_3_4b.safetensors''),
         (''type'', VStr ''lumina2'')]),
     (''3'', mk_node ''CLIPTextEncode''
        [(''text'', VStr prompt), (''clip'', VLink ''2'' 0)]),
     (''4'', mk_node ''CLIPTextEncode''
        [(''text'', VStr []), (''clip'', VLink ''2'' 0)]),
     (''5'', mk_node ''ModelSamplingAuraFlow''
        [(''shift'', VFloat 3), (''model'', VLink ''1'' 0)]),
     (''6'', mk_node ''EmptySD3LatentImage''
        [(''width'', VInt width), (''height'', VInt height), (''batch_size'', VInt 1)]),
     (''7'', mk_node ''KSampler''
        [(''seed'', VInt seed), (''steps'', VInt 8), (''cfg'', VFloat 1),
         (''sampler_name'', VStr ''res_multistep''), (''scheduler'', VStr ''simple''),
         (''denoise'', VFloat 1),
         (''model'', VLink ''5'' 0), (''positive'', VLink ''3'' 0),
         (''negative'', VLink ''4'' 0), (''latent_image'', VLink ''6'' 0)]),
     (''8'', mk_node ''VAELoader''
        [(''vae_name'', VStr ''ae.safetensors'')]),
     (''9'', mk_node ''VAEDecode''
        [(''samples'', VLink ''7'' 0), (''vae'', VLink ''8'' 0)]),
     (''10'', mk_node ''SaveImage''
        [(''filename_prefix'', VStr ''gentest''), (''images'', VLink ''9'' 0)])]"

text \<open>The negative prompt of the video builder is a Chinese string literal; it is kept
  as the bytes of its UTF-8 encoding.\<close>

definition wan_neg_prompt :: string where
  "wan_neg_prompt =
    [
     CHR 0xE8, CHR 0x89, CHR 0xB2, CHR 0xE8, CHR 0xB0, CHR 0x83, CHR 0xE8, CHR 0x89, CHR 0xB3,
     CHR 0xE4, CHR 0xB8, CHR 0xBD, CHR 0xEF, CHR 0xBC, CHR 0x8C, CHR 0xE8, CHR 0xBF, CHR 0x87,
     CHR 0xE6, CHR 0x9B, CHR 0x9D, CHR 0xEF, CHR 0xBC, CHR 0x8C, CHR 0xE9, CHR 0x9D, CHR 0x99,
     CHR 0xE6, CHR 0x80, CHR 0x81, CHR 0xEF, CHR 0xBC, CHR 0x8C, CHR 0xE7, CHR 0xBB, CHR 0x86,
     CHR 0xE8, CHR 0x8A, CHR 0x82, CHR 0xE6, CHR 0xA8, CHR 0xA1, CHR 0xE7, CHR 0xB3, CHR 0x8A,
     CHR 0xE4, CHR 0xB8, CHR 0x8D, CHR 0xE6, CHR 0xB8, CHR 0x85, CHR 0xEF, CHR 0xBC, CHR 0x8C,
     CHR 0xE5, CHR 0xAD, CHR 0x97, CHR 0xE5, CHR 0xB9, CHR 0x95, CHR 0xEF, CHR 0xBC, CHR 0x8C,
     CHR 0xE9, CHR 0xA3, CHR 0x8E, CHR 0xE6, CHR 0xA0, CHR 0xBC, CHR 0xEF, CHR 0xBC, CHR 0x8C,
     CHR 0xE4, CHR 0xBD, CHR 0x9C, CHR 0xE5, CHR 0x93, CHR 0x81, CHR 0xEF, CHR 0xBC, CHR 0x8C,
     CHR 0xE7, CHR 0x94, CHR 0xBB, CHR 0xE4, CHR 0xBD, CHR 0x9C, CHR 0xEF, CHR 0xBC, CHR 0x8C,
     CHR 0xE7, CHR 0x94, CHR 0xBB, CHR 0xE9, CHR 0x9D, CHR 0xA2, CHR 0xEF, CHR 0xBC, CHR 0x8C,
     CHR 0xE9, CHR 0x9D, CHR 0x99, CHR 0xE6, CHR 0xAD, CHR 0xA2, CHR 0xEF, CHR 0xBC, CHR 0x8C,
     CHR 0xE6, CHR 0x95, CHR 0xB4, CHR 0xE4, CHR 0xBD, CHR 0x93, CHR 0xE5, CHR 0x8F, CHR 0x91,
     CHR 0xE7, CHR 0x81, CHR 0xB0, CHR 0xEF, CHR 0xBC, CHR 0x8C, CHR 0xE6, CHR 0x9C, CHR 0x80,
     CHR 0xE5, CHR 0xB7, CHR 0xAE, CHR 0xE8, CHR 0xB4, CHR 0xA8, CHR 0xE9, CHR 0x87, CHR 0x8F,
     CHR 0xEF, CHR 0xBC, CHR 0x8C, CHR 0xE4, CHR 0xBD, CHR 0x8E, CHR 0xE8, CHR 0xB4, CHR 0xA8,
     CHR 0xE9, CHR 0x87, CHR 0x8F, CHR 0xEF, CHR 0xBC, CHR 0x8C, CHR 0x4A, CHR 0x50, CHR 0x45,
     CHR 0x47, CHR 0xE5, CHR 0x8E, CHR 0x8B, CHR 0xE7, CHR 0xBC, CHR 0xA9, CHR 0xE6, CHR 0xAE,
     CHR 0x8B, CHR 0xE7, CHR 0x95, CHR 0x99, CHR 0xEF, CHR 0xBC, CHR 0x8C, CHR 0xE4, CHR 0xB8,
     CHR 0x91, CHR 0xE9, CHR 0x99, CHR 0x8B, CHR 0xE7, CHR 0x9A, CHR 0x84, CHR 0xEF, CHR 0xBC,
     CHR 0x8C, CHR 0xE6, CHR 0xAE, CHR 0x8B, CHR 0xE7, CHR 0xBC, CHR 0xBA, CHR 0xE7, CHR 0x9A,
     CHR 0x84, CHR 0xEF, CHR 0xBC, CHR 0x8C, CHR 0xE5, CHR 0xA4, CHR 0x9A, CHR 0xE4, CHR 0xBD,
     CHR 0x99, CHR 0xE7, CHR 0x9A, CHR 0x84, CHR 0xE6, CHR 0x89, CHR 0x8B, CHR 0xE6, CHR 0x8C,
     CHR 0x87, CHR 0xEF, CHR 0xBC, CHR 0x8C, CHR 0xE7, CHR 0x94, CHR 0xBB, CHR 0xE5, CHR 0xBE,
     CHR 0x97, CHR 0xE4, CHR 0xB8, CHR 0x8D, CHR 0xE5, CHR 0xA5, CHR 0xBD, CHR 0xE7, CHR 0x9A,
     CHR 0x84, CHR 0xE6, CHR 0x89, CHR 0x8B, CHR 0xE9, CHR 0x83, CHR 0xA8, CHR 0xEF, CHR 0xBC,
     CHR 0x8C, CHR 0xE7, CHR 0x94, CHR 0xBB, CHR 0xE5, CHR 0xBE, CHR 0x97, CHR 0xE4, CHR 0xB8,
     CHR 0x8D, CHR 0xE5, CHR 0xA5, CHR 0xBD, CHR 0xE7, CHR 0x9A, CHR 0x84, CHR 0xE8, CHR 0x84,
     CHR 0xB8, CHR 0xE9, CHR 0x83, CHR 0xA8, CHR 0xEF, CHR 0xBC, CHR 0x8C, CHR 0xE7, CHR 0x95,
     CHR 0xB8, CHR 0xE5, CHR 0xBD, CHR 0xA2, CHR 0xE7, CHR 0x9A, CHR 0x84, CHR 0xEF, CHR 0xBC,
     CHR 0x8C, CHR 0xE6, CHR 0xAF, CHR 0x81, CHR 0xE5, CHR 0xAE, CHR 0xB9, CHR 0xE7, CHR 0x9A,
     CHR 0x84, CHR 0xEF, CHR 0xBC, CHR 0x8C, CHR 0xE5, CHR 0xBD, CHR 0xA2, CHR 0xE6, CHR 0x80,
     CHR 0x81, CHR 0xE7, CHR 0x95, CHR 0xB8, CHR 0xE5, CHR 0xBD, CHR 0xA2, CHR 0xE7, CHR 0x9A,
     CHR 0x84, CHR 0xE8, CHR 0x82, CHR 0xA2, CHR 0xE4, CHR 0xBD, CHR 0x93, CHR 0xEF, CHR 0xBC,
     CHR 0x8C, CHR 0xE6, CHR 0x89, CHR 0x8B, CHR 0xE6, CHR 0x8C, CHR 0x87, CHR 0xE8, CHR 0x9E,
     CHR 0x8D, CHR 0xE5, CHR 0x90, CHR 0x88, CHR 0xEF, CHR 0xBC, CHR 0x8C, CHR 0xE9, CHR 0x9D,
     CHR 0x99, CHR 0xE6, CHR 0xAD, CHR 0xA2, CHR 0xE4, CHR 0xB8, CHR 0x8D, CHR 0xE5, CHR 0x8A,
     CHR 0xA8, CHR 0xE7, CHR 0x9A, CHR 0x84, CHR 0xE7, CHR 0x94, CHR 0xBB, CHR 0xE9, CHR 0x9D,
     CHR 0xA2, CHR 0xEF, CHR 0xBC, CHR 0x8C, CHR 0xE6, CHR 0x9D, CHR 0x82, CHR 0xE4, CHR 0xB9,
     CHR 0xB1, CHR 0xE7, CHR 0x9A, CHR 0x84, CHR 0xE8, CHR 0x83, CHR 0x8C, CHR 0xE6, CHR 0x99,
     CHR 0xAF, CHR 0xEF, CHR 0xBC, CHR 0x8C, CHR 0xE4, CHR 0xB8, CHR 0x89, CHR 0xE6, CHR 0x9D,
     CHR 0xA1, CHR 0xE8, CHR 0x85, CHR 0xBF, CHR 0xEF, CHR 0xBC, CHR 0x8C, CHR 0xE8, CHR 0x83,
     CHR 0x8C, CHR 0xE6, CHR 0x99, CHR 0xAF, CHR 0xE4, CHR 0xBA, CHR 0xBA, CHR 0xE5, CHR 0xBE,
     CHR 0x88, CHR 0xE5, CHR 0xA4, CHR 0x9A, CHR 0xEF, CHR 0xBC, CHR 0x8C, CHR 0xE5, CHR 0x80,
     CHR 0x92, CHR 0xE7, CHR 0x9D, CHR 0x80, CHR 0xE8, CHR 0xB5, CHR 0xB0
    ]"

text \<open>\<^verbatim>\<open>workflow_wan_i2v(motion_prompt, image_filename, seed, steps=20, length=49)\<close>: the
  two defaulted arguments are explicit here (\<^verbatim>\<open>length\<close> is written \<open>len\<close>); \<^verbatim>\<open>half_steps = steps // 2\<close> is Python's floor
  division, which is \<open>div\<close> on \<open>int\<close>.\<close>

definition workflow_wan_i2v :: "string \<Rightarrow> string \<Rightarrow> int \<Rightarrow> int \<Rightarrow> int \<Rightarrow> workflow" where
  "workflow_wan_i2v motion_prompt image_filename seed steps len =
    (let half_steps = steps div 2;
         neg_prompt = wan_neg_prompt
     in
    [(''1'', mk_node ''UNETLoader''
        [(''unet_name'', VStr ''wan2.2_i2v_high_noise_14B_fp16.safetensors''),
         (''weight_dtype'', VStr ''default'')]),
     (''2'', mk_node ''UNETLoader''
        [(''unet_name'', VStr ''wan2.2_i2v_low_noise_14B_fp16.safetensors''),
         (''weight_dtype'', VStr ''default'')]),
     (''3'', mk_node ''ModelSamplingSD3''
        [(''model'', VLink ''1'' 0), (''shift'', VFloat 8)]),
     (''4'', mk_node ''ModelSamplingSD3''
        [(''model'', VLink ''2'' 0), (''shift'', VFloat 8)]),
     (''5'', mk_node ''CLIPLoader''
        [(''clip_name'', VStr ''umt5_xxl_fp8_e4m3fn_scaled.safetensors''),
         (''type'', VStr ''wan'')]),
     (''6'', mk_node ''VAELoader''
        [(''vae_name'', VStr ''wan_2.1_vae.safetensors'')]),
     (''7'', mk_node ''CLIPTextEncode''
        [(''text'', VStr motion_prompt), (''clip'', VLink ''5'' 0)]),
     (''8'', mk_node ''CLIPTextEncode''
        [(''text'', VStr neg_prompt), (''clip'', VLink ''5'' 0)]),
     (''9'', mk_node ''LoadImage''
        [(''image'', VStr image_filename)]),
     (''10'', mk_node ''WanImageToVideo''
        [(''positive'', VLink ''7'' 0), (''negative'', VLink ''8'' 0), (''vae'', VLink ''6'' 0),
         (''width'', VInt 832), (''height'', VInt 480), (''length'', VInt len),
         (''batch_size'', VInt 1),
         (''start_image'', VLink ''9'' 0)]),
     (''11'', mk_node ''KSamplerAdvanced''
        [(''model'', VLink ''3'' 0),
         (''positive'', VLink ''10'' 0), (''negative'', VLink ''10'' 1),
         (''latent_image'', VLink ''10'' 2),
         (''noise_seed'', VInt seed), (''steps'', VInt steps), (''cfg'', VFloat (7 / 2)),
         (''sampler_name'', VStr ''euler''), (''scheduler'', VStr ''simple''),
         (''add_noise'', VStr ''enable''), (''start_at_step'', VInt 0),
         (''end_at_step'', VInt half_steps),
         (''return_with_leftover_noise'', VStr ''enable'')]),
     (''12'', mk_node ''KSamplerAdvanced''
        [(''model'', VLink ''4'' 0),
         (''positive'', VLink ''10'' 0), (''negative'', VLink ''10'' 1),
         (''latent_image'', VLink ''11'' 0),
         (''noise_seed'', VInt seed), (''steps'', VInt steps), (''cfg'', VFloat (7 / 2)),
         (''sampler_name'', VStr ''euler''), (''scheduler'', VStr ''simple''),
         (''add_noise'', VStr ''disable''), (''start_at_step'', VInt half_steps),
         (''end_at_step'', VInt 10000),
         (''return_with_leftover_noise'', VStr ''disable'')]),
     (''13'', mk_node ''VAEDecode''
        [(''samples'', VLink ''12'' 0), (''vae'', VLink ''6'' 0)]),
     (''14'', mk_node ''SaveAnimatedWEBP''
        [(''filename_prefix'', VStr ''gentest_vid''),
         (''images'', VLink ''13'' 0),
         (''fps'', VFloat 16),
         (''lossless'', VBool True),
         (''quality'', VInt 100),
         (''method'', VStr ''default'')])])"

subsection \<open>Python exceptions\<close>

text \<open>The exceptions the modelled code can meet, and the part of Python's class hierarchy
  that its \<^verbatim>\<open>except\<close> clauses depend on: \<^verbatim>\<open>URLError\<close>, \<^verbatim>\<open>TimeoutError\<close> and
  \<^verbatim>\<open>ConnectionRefusedError\<close> are subclasses of \<^verbatim>\<open>OSError\<close>; \<^verbatim>\<open>HTTPError\<close> and
  \<^verbatim>\<open>ContentTooShortError\<close> are subclasses of \<^verbatim>\<open>URLError\<close>; \<^verbatim>\<open>http.client.HTTPException\<close>
  and \<^verbatim>\<open>UnicodeDecodeError\<close> are neither.\<close>

datatype exn =
    KeyError
  | IndexError
  | TypeError
  | AttributeError
  | ValueError
  | JSONDecodeError
  | UnicodeDecodeError
  | OSError
  | URLError
  | HTTPError
  | ContentTooShortError
  | TimeoutError
  | ConnectionRefusedError
  | HTTPException
  | RuntimeError

definition is_URLError :: "exn \<Rightarrow> bool" where
  "is_URLError e = (e = URLError \<or> e = HTTPError \<or> e = ContentTooShortError)"

definition is_OSError :: "exn \<Rightarrow> bool" where
  "is_OSError e = (e = OSError \<or> is_URLError e \<or> e = TimeoutError \<or> e = ConnectionRefusedError)"

definition bindE :: "exn + 'a \<Rightarrow> ('a \<Rightarrow> exn + 'b) \<Rightarrow> exn + 'b" where
  "bindE m f = (case m of Inl e \<Rightarrow> Inl e | Inr x \<Rightarrow> f x)"

subsection \<open>JSON values and the Python operations applied to them\<close>

text \<open>What \<^verbatim>\<open>json.loads\<close> returns. An object is the list of the items of the resulting
  dict, so its keys are distinct and \<open>map_of\<close> is the lookup.\<close>

datatype json =
    JNull
  | JBool bool
  | JInt int
  | JFloat rat
  | JStr string
  | JArr "json list"
  | JObj "(string \<times> json) list"

text \<open>\<^verbatim>\<open>d.get(k, default)\<close>: only a dict has the method.\<close>

fun py_get :: "json \<Rightarrow> string \<Rightarrow> json \<Rightarrow> exn + json" where
  "py_get (JObj kvs) k dflt = Inr (case map_of kvs k of None \<Rightarrow> dflt | Some v \<Rightarrow> v)"
| "py_get _ k dflt = Inl AttributeError"

text \<open>\<^verbatim>\<open>len(x)\<close>: strings, lists and dicts are sized.\<close>

fun py_len :: "json \<Rightarrow> exn + nat" where
  "py_len (JStr s) = Inr (length s)"
| "py_len (JArr xs) = Inr (length xs)"
| "py_len (JObj kvs) = Inr (length kvs)"
| "py_len _ = Inl TypeError"


fun starts_with :: "string \<Rightarrow> string \<Rightarrow> bool" where
  "starts_with [] s = True"
| "starts_with (c # cs) [] = False"
| "starts_with (c # cs) (d # ds) = (c = d \<and> starts_with cs ds)"




text \<open>What one HTTP request followed by \<^verbatim>\<open>json.loads(resp.read())\<close> gives: an exception,
  or the decoded body.\<close>

datatype http_reply = Raises exn | Body json

fun read_json :: "http_reply \<Rightarrow> exn + json" where
  "read_json (Raises e) = Inl e"
| "read_json (Body data) = Inr data"

section \<open>Health probing (\<^verbatim>\<open>scripts/comfyui_server.py\<close>)\<close>

definition SERVERS :: "string list" where
  "SERVERS =
    [''http://wright.gazelle-galaxy.ts.net:8188'',
     ''http://wright.gazelle-galaxy.ts.net:8199'',
     ''http://neumann.gazelle-galaxy.ts.net:8188'',
     ''http://neumann.gazelle-galaxy.ts.net:8199'']"

text \<open>The status dict of one server; \<^verbatim>\<open>float("inf")\<close> is \<open>\<infinity>\<close> of \<open>enat\<close>.\<close>

record server_status =
  url :: string
  online :: bool
  running :: nat
  pending :: nat
  load :: enat

text \<open>The body of the \<^verbatim>\<open>try\<close> of \<^verbatim>\<open>check_server\<close>.\<close>

definition check_server_try :: "string \<Rightarrow> http_reply \<Rightarrow> exn + server_status" where
  "check_server_try u reply =
     bindE (read_json reply) (\<lambda>data.
     bindE (py_get data ''queue_running'' (JArr [])) (\<lambda>qr.
     bindE (py_len qr) (\<lambda>running.
     bindE (py_get data ''queue_pending'' (JArr [])) (\<lambda>qp.
     bindE (py_len qp) (\<lambda>pending.
       Inr \<lparr>url = u, online = True, running = running, pending = pending,
            load = enat (running + pending)\<rparr>)))))"

text \<open>\<^verbatim>\<open>except (urllib.error.URLError, OSError, json.JSONDecodeError, TimeoutError)\<close>.\<close>

definition check_server_catches :: "exn \<Rightarrow> bool" where
  "check_server_catches e =
     (is_URLError e \<or> is_OSError e \<or> e = JSONDecodeError \<or> e = TimeoutError)"

definition check_server :: "string \<Rightarrow> http_reply \<Rightarrow> exn + server_status" where
  "check_server u reply =
     (case check_server_try u reply of
        Inr st \<Rightarrow> Inr st
      | Inl e \<Rightarrow>
          if check_server_catches e
          then Inr \<lparr>url = u, online = False, running = 0, pending = 0, load = \<infinity>\<rparr>
          else Inl e)"

text \<open>The loop \<^verbatim>\<open>for future in as_completed(futures): results.append(future.result())\<close>
  over the servers in the order in which their probes finish; \<^verbatim>\<open>future.result()\<close>
  re-raises what \<^verbatim>\<open>check_server\<close> raised.\<close>

fun collect_results :: "(string \<Rightarrow> http_reply) \<Rightarrow> string list \<Rightarrow> exn + server_status list" where
  "collect_results net [] = Inr []"
| "collect_results net (u # us) =
     bindE (check_server u (net u)) (\<lambda>st.
     bindE (collect_results net us) (\<lambda>sts. Inr (st # sts)))"

definition sort_rank :: "server_status \<Rightarrow> bool \<times> enat" where
  "sort_rank s = (\<not> online s, load s)"

text \<open>\<^verbatim>\<open>check_all_servers\<close> for a configured list \<open>servers\<close>, the replies \<open>net\<close> of the workers
  and the order \<open>finished\<close> in which the futures complete (a rearrangement of \<open>servers\<close>
  that the thread pool decides). \<^verbatim>\<open>ThreadPoolExecutor(max_workers=0)\<close> raises
  \<^verbatim>\<open>ValueError\<close>; \<^verbatim>\<open>list.sort\<close> is stable, as \<open>sort_key\<close> is.\<close>

definition check_all_servers ::
  "string list \<Rightarrow> (string \<Rightarrow> http_reply) \<Rightarrow> string list \<Rightarrow> exn + server_status list" where
  "check_all_servers servers net finished =
     (if servers = [] then Inl ValueError
      else bindE (collect_results net finished) (\<lambda>results.
           Inr (sort_key sort_rank results)))"

fun get_best_server_of :: "server_status list \<Rightarrow> string option" where
  "get_best_server_of [] = None"
| "get_best_server_of (s # ss) = (if online s then Some (url s) else get_best_server_of ss)"

section \<open>Routing and submission (\<^verbatim>\<open>scripts/generate_api.py\<close>)\<close>

definition WRIGHT :: string where
  "WRIGHT = ''http://wright.gazelle-galaxy.ts.net:8188''"

definition NEUMANN :: string where
  "NEUMANN = ''http://neumann.gazelle-galaxy.ts.net:8188''"

definition MODEL_SERVER :: "string \<rightharpoonup> string" where
  "MODEL_SERVER = map_of
     [(''flux_dev'', NEUMANN),
      (''flux_schnell'', NEUMANN),
      (''sd35'', WRIGHT),
      (''z_turbo'', WRIGHT),
      (''wan_i2v'', WRIGHT)]"

definition IMG_TIMEOUT :: real where
  "IMG_TIMEOUT = 300"

definition VID_TIMEOUT :: real where
  "VID_TIMEOUT = 2400"



text \<open>\<^verbatim>\<open>BUILDERS\<close> maps a model key to a lambda over (prompt, neg, width, height, seed).\<close>

definition BUILDERS ::
  "string \<rightharpoonup> (string \<Rightarrow> string \<Rightarrow> int \<Rightarrow> int \<Rightarrow> int \<Rightarrow> workflow)" where
  "BUILDERS = map_of
     [(''flux_dev'', \<lambda>p n w h s. workflow_flux_dev p w h s),
      (''flux_schnell'', \<lambda>p n w h s. workflow_flux_schnell p w h s),
      (''sd35'', \<lambda>p n w h s. workflow_sd35 p n w h s),
      (''z_turbo'', \<lambda>p n w h s. workflow_z_turbo p w h s)]"

text \<open>\<^verbatim>\<open>builder = BUILDERS[job["model"]]; workflow = builder(...)\<close> of \<^verbatim>\<open>generate_images\<close>:
  the subscript raises \<^verbatim>\<open>KeyError\<close> for a model the table lacks; the builders themselves
  check nothing.\<close>

definition build_workflow ::
  "string \<Rightarrow> string \<Rightarrow> string \<Rightarrow> int \<Rightarrow> int \<Rightarrow> int \<Rightarrow> exn + workflow" where
  "build_workflow model prompt neg width height seed =
     (case BUILDERS model of
        None \<Rightarrow> Inl KeyError
      | Some builder \<Rightarrow> Inr (builder prompt neg width height seed))"





subsection \<open>Paths\<close>

text \<open>\<^verbatim>\<open>os.path.join(a, b)\<close> and \<^verbatim>\<open>os.path.splitext(p)\<close> of \<^verbatim>\<open>posixpath\<close>. \<open>rfind\<close> is
  \<^verbatim>\<open>str.rfind\<close>: the last index of the character, or \<open>-1\<close>.\<close>

definition path_join :: "string \<Rightarrow> string \<Rightarrow> string" where
  "path_join a b =
     (if starts_with ''/'' b then b
      else if a = [] \<or> last a = CHR ''/'' then a @ b
      else a @ ''/'' @ b)"

fun first_index :: "'a \<Rightarrow> 'a list \<Rightarrow> nat" where
  "first_index c [] = 0"
| "first_index c (d # ds) = (if c = d then 0 else Suc (first_index c ds))"

definition rfind :: "char \<Rightarrow> string \<Rightarrow> int" where
  "rfind c p =
     (if c \<in> set p then int (length p) - 1 - int (first_index c (rev p)) else - 1)"

definition splitext :: "string \<Rightarrow> string \<times> string" where
  "splitext p =
     (let sepIndex = rfind (CHR ''/'') p;
          dotIndex = rfind (CHR ''.'') p
      in if dotIndex > sepIndex \<and>
            list_ex (\<lambda>c. c \<noteq> CHR ''.'')
              (take (nat (dotIndex - (sepIndex + 1))) (drop (nat (sepIndex + 1)) p))
         then (take (nat dotIndex) p, drop (nat dotIndex) p)
         else (p, []))"

subsection \<open>The video stage\<close>

record video_job =
  vj_filename :: string
  vj_model :: string
  vj_motion_prompt :: string
  vj_source_image :: string
  vj_seed :: int

datatype call =
    CUpload string string
  | CSubmit string workflow

datatype video_disposition =
    VSkipped
  | VUploadFailed exn
  | VSubmitFailed exn
  | VSubmitted string string

text \<open>One round of the submission loop of \<^verbatim>\<open>generate_videos\<close>, with the network calls it
  makes: \<open>upload\<close> and \<open>submit\<close> are what \<^verbatim>\<open>upload_image\<close> and \<^verbatim>\<open>submit_prompt\<close> do on the
  network. The builder is called with its defaults \<^verbatim>\<open>steps=20, length=49\<close>.\<close>

definition submit_video_job ::
  "string list \<Rightarrow> string \<Rightarrow> (string \<Rightarrow> string \<Rightarrow> exn + string) \<Rightarrow>
   (string \<Rightarrow> workflow \<Rightarrow> exn + string) \<Rightarrow> video_job \<Rightarrow> call list \<times> video_disposition" where
  "submit_video_job servers test_dir upload submit job =
     (let server = (case MODEL_SERVER (vj_model job) of None \<Rightarrow> WRIGHT | Some s \<Rightarrow> s)
      in if server \<notin> set servers then ([], VSkipped)
         else
           let src_path = path_join test_dir (vj_source_image job)
           in case upload server src_path of
                Inl e \<Rightarrow> ([CUpload server src_path], VUploadFailed e)
              | Inr uploaded_name \<Rightarrow>
                  let workflow =
                        workflow_wan_i2v (vj_motion_prompt job) uploaded_name (vj_seed job) 20 49
                  in (case submit server workflow of
                        Inr prompt_id \<Rightarrow>
                          ([CUpload server src_path, CSubmit server workflow],
                           VSubmitted server prompt_id)
                      | Inl e \<Rightarrow>
                          ([CUpload server src_path, CSubmit server workflow],
                           VSubmitFailed e)))"

datatype video_stage =
    SourceMissing string
  | Processed "(video_job \<times> video_disposition) list"

text \<open>\<^verbatim>\<open>generate_videos\<close> (not a dry run) up to the end of its submission loop: the check
  that every source image exists returns from the function at the first one that does
  not; \<open>file_exists\<close> is \<^verbatim>\<open>os.path.exists\<close>. The result is the list of network calls made
  and what became of the stage.\<close>

definition generate_videos ::
  "string list \<Rightarrow> string \<Rightarrow> (string \<Rightarrow> bool) \<Rightarrow> (string \<Rightarrow> string \<Rightarrow> exn + string) \<Rightarrow>
   (string \<Rightarrow> workflow \<Rightarrow> exn + string) \<Rightarrow> video_job list \<Rightarrow> call list \<times> video_stage" where
  "generate_videos servers test_dir file_exists upload submit jobs =
     (case find (\<lambda>job. \<not> file_exists (path_join test_dir (vj_source_image job))) jobs of
        Some job \<Rightarrow> ([], SourceMissing (path_join test_dir (vj_source_image job)))
      | None \<Rightarrow>
          (let rounds = map (submit_video_job servers test_dir upload submit) jobs
           in (concat (map fst rounds), Processed (zip jobs (map snd rounds)))))"

definition submitted_jobs :: "video_stage \<Rightarrow> video_job list" where
  "submitted_jobs st =
     (case st of
        SourceMissing src \<Rightarrow> []
      | Processed rs \<Rightarrow>
          map fst (filter (\<lambda>(job, d). case d of VSubmitted s p \<Rightarrow> True | _ \<Rightarrow> False) rs))"

subsection \<open>Polling\<close>











subsection \<open>Retrieval\<close>













section \<open>Structural invariants of a graph\<close>













section \<open>Environments for concrete runs\<close>

text \<open>A network given by a table of replies; a server that the table does not list
  refuses the connection.\<close>

definition replies_of :: "(string \<times> http_reply) list \<Rightarrow> string \<Rightarrow> http_reply" where
  "replies_of table u = (case map_of table u of None \<Rightarrow> Raises URLError | Some r \<Rightarrow> r)"

text \<open>A \<^verbatim>\<open>/queue\<close> body with the given numbers of running and pending entries.\<close>

definition queue_body :: "nat \<Rightarrow> nat \<Rightarrow> http_reply" where
  "queue_body r p =
     Body (JObj [(''queue_running'', JArr (replicate r JNull)),
                 (''queue_pending'', JArr (replicate p JNull))])"

text \<open>Replies that \<^verbatim>\<open>check_server\<close> turns into a status: an exception of its \<^verbatim>\<open>except\<close>
  clause, or a JSON object whose two queue entries, where present, are sized values.\<close>

fun sized :: "json \<Rightarrow> bool" where
  "sized (JStr s) = True"
| "sized (JArr xs) = True"
| "sized (JObj kvs) = True"
| "sized _ = False"

fun shaped :: "http_reply \<Rightarrow> bool" where
  "shaped (Raises e) = check_server_catches e"
| "shaped (Body (JObj kvs)) =
     ((case map_of kvs ''queue_running'' of None \<Rightarrow> True | Some v \<Rightarrow> sized v) \<and>
      (case map_of kvs ''queue_pending'' of None \<Rightarrow> True | Some v \<Rightarrow> sized v))"
| "shaped (Body _) = False"

text \<open>A local directory that holds exactly the listed paths; a worker that accepts every
  upload and every submission.\<close>

definition files_present :: "string list \<Rightarrow> string \<Rightarrow> bool" where
  "files_present paths p = (p \<in> set paths)"

definition accepts_upload :: "string \<Rightarrow> string \<Rightarrow> exn + string" where
  "accepts_upload server path = Inr ''uploaded.png''"

definition accepts_submit :: "string \<Rightarrow> workflow \<Rightarrow> exn + string" where
  "accepts_submit server workflow = Inr ''prompt-1''"


section \<open>Properties of the builders\<close>

lemmas builder_eval = input_of_def mk_node_def Let_def

text \<open>
  C1. In the graph of \<^verbatim>\<open>workflow_wan_i2v\<close>, for every step count, pass 1 (node 11) ends at
  \<open>steps div 2\<close>, the floor of the half, and pass 2 (node 12) starts there; both passes carry
  the seed given; pass 1 adds noise and returns with leftover noise, pass 2 adds none
  and takes its latent from pass 1. For 20 steps the boundary is 10, for 7 it is 3.
\<close>

theorem wan_i2v_step_boundary:
  "input_of (workflow_wan_i2v mp img seed steps len) ''11'' ''end_at_step''
     = Some (VInt (steps div 2)) \<and>
   input_of (workflow_wan_i2v mp img seed steps len) ''12'' ''start_at_step''
     = input_of (workflow_wan_i2v mp img seed steps len) ''11'' ''end_at_step'' \<and>
   input_of (workflow_wan_i2v mp img seed steps len) ''11'' ''noise_seed'' = Some (VInt seed) \<and>
   input_of (workflow_wan_i2v mp img seed steps len) ''12'' ''noise_seed'' = Some (VInt seed) \<and>
   input_of (workflow_wan_i2v mp img seed steps len) ''11'' ''add_noise''
     = Some (VStr ''enable'') \<and>
   input_of (workflow_wan_i2v mp img seed steps len) ''11'' ''return_with_leftover_noise''
     = Some (VStr ''enable'') \<and>
   input_of (workflow_wan_i2v mp img seed steps len) ''12'' ''add_noise''
     = Some (VStr ''disable'') \<and>
   input_of (workflow_wan_i2v mp img seed steps len) ''12'' ''latent_image''
     = Some (VLink ''11'' 0) \<and>
   input_of (workflow_wan_i2v mp img seed 20 len) ''11'' ''end_at_step'' = Some (VInt 10) \<and>
   input_of (workflow_wan_i2v mp img seed 7 len) ''11'' ''end_at_step'' = Some (VInt 3)"
  by (simp add: workflow_wan_i2v_def builder_eval)

subsection \<open>The invariants follow from the listing order\<close>
















text \<open>
  C7 as stated fails: the builders validate nothing. A record with width 0 and height
  -5 is built into a graph that carries these values.
\<close>

theorem build_rejects_bad_size_counterexample:
  "build_workflow ''flux_dev'' ''a lighthouse'' [] 0 (- 5) 42
     = Inr (workflow_flux_dev ''a lighthouse'' 0 (- 5) 42) \<and>
   input_of (workflow_flux_dev ''a lighthouse'' 0 (- 5) 42) ''6'' ''width'' = Some (VInt 0) \<and>
   input_of (workflow_flux_dev ''a lighthouse'' 0 (- 5) 42) ''6'' ''height'' = Some (VInt (- 5))"
  by (simp add: build_workflow_def BUILDERS_def workflow_flux_dev_def builder_eval)

lemma BUILDERS_cases:
  "BUILDERS model = Some b \<Longrightarrow>
   model = ''flux_dev'' \<and> b = (\<lambda>p n w h s. workflow_flux_dev p w h s) \<or>
   model = ''flux_schnell'' \<and> b = (\<lambda>p n w h s. workflow_flux_schnell p w h s) \<or>
   model = ''sd35'' \<and> b = (\<lambda>p n w h s. workflow_sd35 p n w h s) \<or>
   model = ''z_turbo'' \<and> b = (\<lambda>p n w h s. workflow_z_turbo p w h s)"
  by (auto simp: BUILDERS_def split: if_splits)

text \<open>
  C7, amended. For every model of the dispatch table and every prompt, negative prompt,
  width, height and seed (non-positive sizes included), construction returns a graph and
  raises nothing; the graph has a latent node that carries the width and the height
  unchanged, a sampler node that carries the seed and a text node that carries the prompt.
  The video builder, which the table does not list, likewise carries any step count, any
  length and any image name into its graph.
\<close>

theorem build_never_rejects:
  assumes "BUILDERS model = Some b"
  shows "\<exists>g. build_workflow model prompt neg width height seed = Inr g \<and>
           g = b prompt neg width height seed \<and>
           (\<exists>k. input_of g k ''width'' = Some (VInt width) \<and>
                input_of g k ''height'' = Some (VInt height)) \<and>
           (\<exists>k. input_of g k ''seed'' = Some (VInt seed)) \<and>
           (\<exists>k. input_of g k ''text'' = Some (VStr prompt)) \<and>
           input_of (workflow_wan_i2v motion img seed steps len) ''11'' ''steps''
             = Some (VInt steps) \<and>
           input_of (workflow_wan_i2v motion img seed steps len) ''10'' ''length''
             = Some (VInt len) \<and>
           input_of (workflow_wan_i2v motion img seed steps len) ''9'' ''image''
             = Some (VStr img)"
proof -
  have w: "\<exists>k. input_of (b prompt neg width height seed) k ''width'' = Some (VInt width) \<and>
               input_of (b prompt neg width height seed) k ''height'' = Some (VInt height)"
    using BUILDERS_cases[OF assms]
  proof (elim disjE conjE)
    assume "b = (\<lambda>p n w h s. workflow_flux_dev p w h s)"
    then show ?thesis
      by (intro exI[of _ "''6''"]) (simp add: workflow_flux_dev_def builder_eval)
  next
    assume "b = (\<lambda>p n w h s. workflow_flux_schnell p w h s)"
    then show ?thesis
      by (intro exI[of _ "''5''"]) (simp add: workflow_flux_schnell_def builder_eval)
  next
    assume "b = (\<lambda>p n w h s. workflow_sd35 p n w h s)"
    then show ?thesis
      by (intro exI[of _ "''4''"]) (simp add: workflow_sd35_def builder_eval)
  next
    assume "b = (\<lambda>p n w h s. workflow_z_turbo p w h s)"
    then show ?thesis
      by (intro exI[of _ "''6''"]) (simp add: workflow_z_turbo_def builder_eval)
  qed
  have s: "\<exists>k. input_of (b prompt neg width height seed) k ''seed'' = Some (VInt seed)"
    using BUILDERS_cases[OF assms]
  proof (elim disjE conjE)
    assume "b = (\<lambda>p n w h s. workflow_flux_dev p w h s)"
    then show ?thesis
      by (intro exI[of _ "''7''"]) (simp add: workflow_flux_dev_def builder_eval)
  next
    assume "b = (\<lambda>p n w h s. workflow_flux_schnell p w h s)"
    then show ?thesis
      by (intro exI[of _ "''6''"]) (simp add: workflow_flux_schnell_def builder_eval)
  next
    assume "b = (\<lambda>p n w h s. workflow_sd35 p n w h s)"
    then show ?thesis
      by (intro exI[of _ "''5''"]) (simp add: workflow_sd35_def builder_eval)
  next
    assume "b = (\<lambda>p n w h s. workflow_z_turbo p w h s)"
    then show ?thesis
      by (intro exI[of _ "''7''"]) (simp add: workflow_z_turbo_def builder_eval)
  qed
  have t: "\<exists>k. input_of (b prompt neg width height seed) k ''text'' = Some (VStr prompt)"
    using BUILDERS_cases[OF assms]
  proof (elim disjE conjE)
    assume "b = (\<lambda>p n w h s. workflow_flux_dev p w h s)"
    then show ?thesis
      by (intro exI[of _ "''3''"]) (simp add: workflow_flux_dev_def builder_eval)
  next
    assume "b = (\<lambda>p n w h s. workflow_flux_schnell p w h s)"
    then show ?thesis
      by (intro exI[of _ "''3''"]) (simp add: workflow_flux_schnell_def builder_eval)
  next
    assume "b = (\<lambda>p n w h s. workflow_sd35 p n w h s)"
    then show ?thesis
      by (intro exI[of _ "''2''"]) (simp add: workflow_sd35_def builder_eval)
  next
    assume "b = (\<lambda>p n w h s. workflow_z_turbo p w h s)"
    then show ?thesis
      by (intro exI[of _ "''3''"]) (simp add: workflow_z_turbo_def builder_eval)
  qed
  have v: "input_of (workflow_wan_i2v motion img seed steps len) ''11'' ''steps''
             = Some (VInt steps) \<and>
           input_of (workflow_wan_i2v motion img seed steps len) ''10'' ''length''
             = Some (VInt len) \<and>
           input_of (workflow_wan_i2v motion img seed steps len) ''9'' ''image''
             = Some (VStr img)"
    by (simp add: workflow_wan_i2v_def builder_eval)
  from assms w s t v show ?thesis by (simp add: build_workflow_def)
qed

theorem build_never_rejects_witness:
  "BUILDERS ''sd35'' = Some (\<lambda>p n w h s. workflow_sd35 p n w h s) \<and>
   (\<exists>g. build_workflow ''sd35'' ''a lighthouse'' ''blurry'' 0 (- 5) 42 = Inr g \<and>
        g = workflow_sd35 ''a lighthouse'' ''blurry'' 0 (- 5) 42 \<and>
        (\<exists>k. input_of g k ''width'' = Some (VInt 0) \<and>
             input_of g k ''height'' = Some (VInt (- 5))) \<and>
        (\<exists>k. input_of g k ''seed'' = Some (VInt 42)) \<and>
        (\<exists>k. input_of g k ''text'' = Some (VStr ''a lighthouse''))) \<and>
   input_of (workflow_wan_i2v ''waves roll in'' ''a.png'' 42 0 (- 1)) ''11'' ''steps''
     = Some (VInt 0)"
proof -
  have h: "BUILDERS ''sd35'' = Some (\<lambda>p n w h s. workflow_sd35 p n w h s)"
    by (simp add: BUILDERS_def)
  from build_never_rejects[OF h, of "''a lighthouse''" "''blurry''" 0 "- 5" 42
      "''waves roll in''" "''a.png''" 0 "- 1"] h
  show ?thesis by simp
qed

section \<open>Properties of the poller\<close>










section \<open>Properties of the health prober\<close>

lemmas probe_eval = check_server_def check_server_try_def check_server_catches_def bindE_def
  is_OSError_def is_URLError_def

text \<open>
  C5 fails on the code for a worker that answers with well-formed JSON that is not an
  object: \<^verbatim>\<open>data.get\<close> raises \<^verbatim>\<open>AttributeError\<close>, which the \<^verbatim>\<open>except\<close> clause of
  \<^verbatim>\<open>check_server\<close> does not list, and \<^verbatim>\<open>future.result()\<close> raises it out of
  \<^verbatim>\<open>check_all_servers\<close>. Here the first configured worker answers \<^verbatim>\<open>[]\<close> and the three others
  are idle.
\<close>

theorem probe_raises_on_array_body:
  "check_all_servers SERVERS
     (replies_of
        [(''http://wright.gazelle-galaxy.ts.net:8188'', Body (JArr [])),
         (''http://wright.gazelle-galaxy.ts.net:8199'', queue_body 0 0),
         (''http://neumann.gazelle-galaxy.ts.net:8188'', queue_body 0 0),
         (''http://neumann.gazelle-galaxy.ts.net:8199'', queue_body 0 0)])
     SERVERS
   = Inl AttributeError"
  by (simp add: check_all_servers_def SERVERS_def replies_of_def queue_body_def probe_eval)

text \<open>Outside that case the prober does what C5 says: a reply that is an exception of
  the \<^verbatim>\<open>except\<close> clause gives the offline status with load \<open>\<infinity>\<close>, and when every reply is
  such an exception or a JSON object with sized queue entries, the probe returns one
  status per worker.\<close>

lemma check_server_offline:
  "check_server_catches e \<Longrightarrow>
   check_server u (Raises e)
     = Inr \<lparr>url = u, online = False, running = 0, pending = 0, load = \<infinity>\<rparr>"
  by (simp add: check_server_def check_server_try_def bindE_def)

lemma check_server_shaped:
  assumes "shaped reply"
  shows "\<exists>st. check_server u reply = Inr st \<and> url st = u"
proof (cases reply)
  case (Raises e)
  with assms show ?thesis by (simp add: check_server_offline)
next
  case (Body data)
  with assms obtain kvs where d: "data = JObj kvs" by (cases data) simp_all
  from assms Body d obtain r where r:
    "py_len (case map_of kvs ''queue_running'' of None \<Rightarrow> JArr [] | Some v \<Rightarrow> v) = Inr r"
    by (cases "map_of kvs ''queue_running''"; cases "the (map_of kvs ''queue_running'')") auto
  from assms Body d obtain p where p:
    "py_len (case map_of kvs ''queue_pending'' of None \<Rightarrow> JArr [] | Some v \<Rightarrow> v) = Inr p"
    by (cases "map_of kvs ''queue_pending''"; cases "the (map_of kvs ''queue_pending'')") auto
  from r p show ?thesis
    by (simp add: Body d check_server_def check_server_try_def bindE_def)
qed

lemma collect_results_shaped:
  "list_all (\<lambda>u. shaped (net u)) finished \<Longrightarrow>
   \<exists>sts. collect_results net finished = Inr sts \<and> map url sts = finished"
proof (induction finished)
  case Nil
  then show ?case by simp
next
  case (Cons u us)
  then obtain sts where s: "collect_results net us = Inr sts" "map url sts = us" by auto
  from Cons.prems obtain st where t: "check_server u (net u) = Inr st" "url st = u"
    using check_server_shaped[of "net u" u] by auto
  from s t show ?case by (simp add: bindE_def)
qed

lemma probe_complete_when_shaped:
  assumes "servers \<noteq> []" "list_all (\<lambda>u. shaped (net u)) finished"
  shows "\<exists>rs. check_all_servers servers net finished = Inr rs \<and>
              length rs = length finished \<and> set (map url rs) = set finished"
proof -
  from collect_results_shaped[OF assms(2)] obtain sts where
    s: "collect_results net finished = Inr sts" "map url sts = finished" by blast
  have "length sts = length finished" using s(2) by (metis length_map)
  moreover have "set (map url (sort_key sort_rank sts)) = set finished"
    using s(2) by (metis set_map set_sort)
  ultimately show ?thesis
    using assms(1) s(1) by (simp add: check_all_servers_def bindE_def)
qed

subsection \<open>Order of the result\<close>

lemma check_server_rank:
  "check_server u reply = Inr st \<Longrightarrow>
   (online st \<longrightarrow> load st \<noteq> \<infinity>) \<and> (\<not> online st \<longrightarrow> load st = \<infinity>)"
  by (auto simp: check_server_def check_server_try_def bindE_def
      split: sum.splits if_splits)

lemma collect_results_rank:
  "collect_results net us = Inr sts \<Longrightarrow>
   \<forall>st \<in> set sts. (online st \<longrightarrow> load st \<noteq> \<infinity>) \<and> (\<not> online st \<longrightarrow> load st = \<infinity>)"
proof (induction us arbitrary: sts)
  case Nil
  then show ?case by simp
next
  case (Cons u us)
  then show ?case
    by (auto simp: bindE_def split: sum.splits dest: check_server_rank)
qed

lemma collect_results_urls:
  "collect_results net us = Inr sts \<Longrightarrow> map url sts = us"
proof (induction us arbitrary: sts)
  case Nil
  then show ?case by simp
next
  case (Cons u us)
  then show ?case
    by (auto simp: bindE_def check_server_def check_server_try_def
        split: sum.splits if_splits)
qed

lemma sorted_partition:
  "sorted_wrt R xs \<Longrightarrow> (\<And>x y. R x y \<Longrightarrow> P y \<Longrightarrow> P x) \<Longrightarrow>
   xs = filter P xs @ filter (\<lambda>x. \<not> P x) xs"
proof (induction xs)
  case Nil
  then show ?case by simp
next
  case (Cons x xs)
  then have ih: "xs = filter P xs @ filter (\<lambda>x. \<not> P x) xs" by simp
  show ?case
  proof (cases "P x")
    case True
    with ih show ?thesis by simp
  next
    case False
    with Cons.prems have "\<forall>y \<in> set xs. \<not> P y" by auto
    then have "filter P xs = []" by (simp add: filter_empty_conv)
    with False ih show ?thesis by simp
  qed
qed

lemma rank_online_first:
  "sort_rank x \<le> sort_rank y \<Longrightarrow> online y \<Longrightarrow> online x"
  by (auto simp: sort_rank_def less_eq_prod_def)

lemma rank_load:
  "sort_rank x \<le> sort_rank y \<Longrightarrow> online x \<Longrightarrow> online y \<Longrightarrow> load x \<le> load y"
  by (auto simp: sort_rank_def less_eq_prod_def)

text \<open>
  C6 as stated fails in its last part: the results are appended in the order in which
  the futures complete, and the stable sort keeps that order among equal keys. With all
  four workers offline and the probes completing in the reverse of the configured order,
  the result lists the workers in reverse.
\<close>

theorem probe_tie_order_counterexample:
  "map_sum id (map url) (check_all_servers SERVERS (replies_of []) (rev SERVERS))
     = Inr [''http://neumann.gazelle-galaxy.ts.net:8199'',
            ''http://neumann.gazelle-galaxy.ts.net:8188'',
            ''http://wright.gazelle-galaxy.ts.net:8199'',
            ''http://wright.gazelle-galaxy.ts.net:8188''] \<and>
   SERVERS
     = [''http://wright.gazelle-galaxy.ts.net:8188'',
        ''http://wright.gazelle-galaxy.ts.net:8199'',
        ''http://neumann.gazelle-galaxy.ts.net:8188'',
        ''http://neumann.gazelle-galaxy.ts.net:8199'']"
  by (simp add: check_all_servers_def SERVERS_def replies_of_def probe_eval sort_rank_def
      less_eq_prod_def)

text \<open>
  C6, amended. Whenever the probe returns a list, the list holds the statuses of the
  workers in this order: all online workers first, in ascending order of load, then all
  offline workers; workers with the same key (equal load, or both offline) appear in the
  order in which their probes completed.
\<close>

theorem probe_order:
  assumes "check_all_servers servers net finished = Inr rs"
  shows "\<exists>results. collect_results net finished = Inr results \<and>
           map url results = finished \<and>
           set rs = set results \<and> length rs = length results \<and>
           rs = filter online rs @ filter (\<lambda>s. \<not> online s) rs \<and>
           sorted (map load (filter online rs)) \<and>
           (\<forall>k. filter (\<lambda>s. sort_rank s = k) rs = filter (\<lambda>s. sort_rank s = k) results)"
proof -
  from assms obtain results where
    c: "collect_results net finished = Inr results" and rs: "rs = sort_key sort_rank results"
    by (auto simp: check_all_servers_def bindE_def split: if_splits sum.splits)
  have srt: "sorted_wrt (\<lambda>x y. sort_rank x \<le> sort_rank y) rs"
    using sorted_sort_key[of sort_rank results] by (simp add: rs sorted_map)
  have part: "rs = filter online rs @ filter (\<lambda>s. \<not> online s) rs"
    by (rule sorted_partition[OF srt]) (rule rank_online_first)
  have "sorted_wrt (\<lambda>x y. sort_rank x \<le> sort_rank y) (filter online rs)"
    by (rule sorted_wrt_filter[OF srt])
  then have "sorted_wrt (\<lambda>x y. load x \<le> load y) (filter online rs)"
    by (rule sorted_wrt_mono_rel[rotated]) (auto dest: rank_load)
  then have loads: "sorted (map load (filter online rs))"
    by (simp add: sorted_map)
  have stable: "\<forall>k. filter (\<lambda>s. sort_rank s = k) rs = filter (\<lambda>s. sort_rank s = k) results"
    by (simp add: rs sort_key_stable)
  from c collect_results_urls[OF c] part loads stable show ?thesis
    by (intro exI[of _ results]) (simp add: rs)
qed

theorem probe_order_witness:
  "check_all_servers SERVERS
     (replies_of
        [(''http://wright.gazelle-galaxy.ts.net:8188'', queue_body 1 1),
         (''http://neumann.gazelle-galaxy.ts.net:8188'', queue_body 0 0),
         (''http://neumann.gazelle-galaxy.ts.net:8199'', queue_body 0 1)])
     [''http://neumann.gazelle-galaxy.ts.net:8199'',
      ''http://wright.gazelle-galaxy.ts.net:8188'',
      ''http://wright.gazelle-galaxy.ts.net:8199'',
      ''http://neumann.gazelle-galaxy.ts.net:8188'']
   = Inr [\<lparr>url = ''http://neumann.gazelle-galaxy.ts.net:8188'', online = True,
            running = 0, pending = 0, load = 0\<rparr>,
          \<lparr>url = ''http://neumann.gazelle-galaxy.ts.net:8199'', online = True,
            running = 0, pending = 1, load = 1\<rparr>,
          \<lparr>url = ''http://wright.gazelle-galaxy.ts.net:8188'', online = True,
            running = 1, pending = 1, load = 2\<rparr>,
          \<lparr>url = ''http://wright.gazelle-galaxy.ts.net:8199'', online = False,
            running = 0, pending = 0, load = \<infinity>\<rparr>] \<and>
   (\<exists>results.
      collect_results
        (replies_of
          [(''http://wright.gazelle-galaxy.ts.net:8188'', queue_body 1 1),
           (''http://neumann.gazelle-galaxy.ts.net:8188'', queue_body 0 0),
           (''http://neumann.gazelle-galaxy.ts.net:8199'', queue_body 0 1)])
        [''http://neumann.gazelle-galaxy.ts.net:8199'',
         ''http://wright.gazelle-galaxy.ts.net:8188'',
         ''http://wright.gazelle-galaxy.ts.net:8199'',
         ''http://neumann.gazelle-galaxy.ts.net:8188''] = Inr results \<and>
      sorted (map load (filter online
        [\<lparr>url = ''http://neumann.gazelle-galaxy.ts.net:8188'', online = True,
            running = 0, pending = 0, load = 0\<rparr>,
         \<lparr>url = ''http://neumann.gazelle-galaxy.ts.net:8199'', online = True,
            running = 0, pending = 1, load = 1\<rparr>,
         \<lparr>url = ''http://wright.gazelle-galaxy.ts.net:8188'', online = True,
            running = 1, pending = 1, load = 2\<rparr>,
         \<lparr>url = ''http://wright.gazelle-galaxy.ts.net:8199'', online = False,
            running = 0, pending = 0, load = \<infinity>\<rparr>])))"
proof -
  have h: "check_all_servers SERVERS
     (replies_of
        [(''http://wright.gazelle-galaxy.ts.net:8188'', queue_body 1 1),
         (''http://neumann.gazelle-galaxy.ts.net:8188'', queue_body 0 0),
         (''http://neumann.gazelle-galaxy.ts.net:8199'', queue_body 0 1)])
     [''http://neumann.gazelle-galaxy.ts.net:8199'',
      ''http://wright.gazelle-galaxy.ts.net:8188'',
      ''http://wright.gazelle-galaxy.ts.net:8199'',
      ''http://neumann.gazelle-galaxy.ts.net:8188'']
   = Inr [\<lparr>url = ''http://neumann.gazelle-galaxy.ts.net:8188'', online = True,
            running = 0, pending = 0, load = 0\<rparr>,
          \<lparr>url = ''http://neumann.gazelle-galaxy.ts.net:8199'', online = True,
            running = 0, pending = 1, load = 1\<rparr>,
          \<lparr>url = ''http://wright.gazelle-galaxy.ts.net:8188'', online = True,
            running = 1, pending = 1, load = 2\<rparr>,
          \<lparr>url = ''http://wright.gazelle-galaxy.ts.net:8199'', online = False,
            running = 0, pending = 0, load = \<infinity>\<rparr>]"
    by (simp add: check_all_servers_def SERVERS_def replies_of_def queue_body_def probe_eval
        sort_rank_def less_eq_prod_def one_enat_def zero_enat_def numeral_eq_enat)
  from probe_order[OF h] h show ?thesis by blast
qed

section \<open>Properties of routing and of the video stage\<close>




text \<open>
  C8 as stated fails: one missing source image stops the whole video stage. Of two jobs,
  the first has its source image and the second has not; no network call is made and the
  first job is not submitted either.
\<close>

theorem video_stage_counterexample:
  "generate_videos [WRIGHT] ''/t'' (files_present [''/t/hague-c01-flux_dev.png''])
     accepts_upload accepts_submit
     [\<lparr>vj_filename = ''hague-v01-wan_i2v'', vj_model = ''wan_i2v'',
       vj_motion_prompt = ''light shifts'', vj_source_image = ''hague-c01-flux_dev.png'',
       vj_seed = 7\<rparr>,
      \<lparr>vj_filename = ''hague-v02-wan_i2v'', vj_model = ''wan_i2v'',
       vj_motion_prompt = ''rain falls'', vj_source_image = ''hague-c02-flux_dev.png'',
       vj_seed = 8\<rparr>]
   = ([], SourceMissing ''/t/hague-c02-flux_dev.png'') \<and>
   submitted_jobs (SourceMissing ''/t/hague-c02-flux_dev.png'') = []"
  by (simp add: generate_videos_def files_present_def path_join_def submitted_jobs_def)

lemma find_missing:
  "find P xs = Some x \<Longrightarrow> x \<in> set xs \<and> P x"
  by (induction xs) (auto split: if_splits)

lemma find_none: "find P xs = None \<longleftrightarrow> (\<forall>x \<in> set xs. \<not> P x)"
  by (induction xs) auto

text \<open>
  C8, amended. When the source image of some job of the video stage is absent locally,
  the stage stops before its submission loop: no network call is made for any job and no
  job is submitted, those whose source image is present included. When every source image
  is present, each job is handled on its own: a job whose routed server is online, and
  whose upload and submission the worker accepts, is uploaded, built from the name the
  worker gave the upload, and submitted.
\<close>

theorem video_stage_all_or_nothing:
  "((\<exists>job \<in> set jobs. \<not> file_exists (path_join test_dir (vj_source_image job))) \<longrightarrow>
      fst (generate_videos servers test_dir file_exists upload submit jobs) = [] \<and>
      submitted_jobs (snd (generate_videos servers test_dir file_exists upload submit jobs)) = [] \<and>
      (\<exists>src. snd (generate_videos servers test_dir file_exists upload submit jobs)
                = SourceMissing src \<and> \<not> file_exists src)) \<and>
   ((\<forall>job \<in> set jobs. file_exists (path_join test_dir (vj_source_image job))) \<and>
    j \<in> set jobs \<and> MODEL_SERVER (vj_model j) = Some s \<and> s \<in> set servers \<and>
    upload s (path_join test_dir (vj_source_image j)) = Inr name \<and>
    submit s (workflow_wan_i2v (vj_motion_prompt j) name (vj_seed j) 20 49) = Inr prompt_id \<longrightarrow>
      j \<in> set (submitted_jobs
                 (snd (generate_videos servers test_dir file_exists upload submit jobs))) \<and>
      CUpload s (path_join test_dir (vj_source_image j))
        \<in> set (fst (generate_videos servers test_dir file_exists upload submit jobs)) \<and>
      CSubmit s (workflow_wan_i2v (vj_motion_prompt j) name (vj_seed j) 20 49)
        \<in> set (fst (generate_videos servers test_dir file_exists upload submit jobs)))"
proof (intro conjI impI)
  assume "\<exists>job \<in> set jobs. \<not> file_exists (path_join test_dir (vj_source_image job))"
  then have "find (\<lambda>job. \<not> file_exists (path_join test_dir (vj_source_image job))) jobs \<noteq> None"
    by (simp add: find_none)
  then obtain m where
    m: "find (\<lambda>job. \<not> file_exists (path_join test_dir (vj_source_image job))) jobs = Some m"
    by blast
  from find_missing[OF m] have nm: "\<not> file_exists (path_join test_dir (vj_source_image m))"
    by simp
  have g: "generate_videos servers test_dir file_exists upload submit jobs
             = ([], SourceMissing (path_join test_dir (vj_source_image m)))"
    by (simp add: generate_videos_def m)
  show "fst (generate_videos servers test_dir file_exists upload submit jobs) = []"
    by (simp add: g)
  show "submitted_jobs (snd (generate_videos servers test_dir file_exists upload submit jobs)) = []"
    by (simp add: g submitted_jobs_def)
  show "\<exists>src. snd (generate_videos servers test_dir file_exists upload submit jobs)
                = SourceMissing src \<and> \<not> file_exists src"
    using nm by (simp add: g)
next
  assume a: "(\<forall>job \<in> set jobs. file_exists (path_join test_dir (vj_source_image job))) \<and>
    j \<in> set jobs \<and> MODEL_SERVER (vj_model j) = Some s \<and> s \<in> set servers \<and>
    upload s (path_join test_dir (vj_source_image j)) = Inr name \<and>
    submit s (workflow_wan_i2v (vj_motion_prompt j) name (vj_seed j) 20 49) = Inr prompt_id"
  then have f: "find (\<lambda>job. \<not> file_exists (path_join test_dir (vj_source_image job))) jobs = None"
    by (simp add: find_none)
  have r: "submit_video_job servers test_dir upload submit j
             = ([CUpload s (path_join test_dir (vj_source_image j)),
                 CSubmit s (workflow_wan_i2v (vj_motion_prompt j) name (vj_seed j) 20 49)],
                VSubmitted s prompt_id)"
    using a by (simp add: submit_video_job_def Let_def)
  have g: "generate_videos servers test_dir file_exists upload submit jobs
             = (concat (map (\<lambda>job. fst (submit_video_job servers test_dir upload submit job)) jobs),
                Processed (map (\<lambda>job. (job, snd (submit_video_job servers test_dir upload submit job)))
                  jobs))"
    by (simp add: generate_videos_def f Let_def zip_map2 zip_same_conv_map comp_def)
  from a have jin: "j \<in> set jobs" by simp
  show "j \<in> set (submitted_jobs
                 (snd (generate_videos servers test_dir file_exists upload submit jobs)))"
    using jin r by (force simp: g submitted_jobs_def image_iff)
  show "CUpload s (path_join test_dir (vj_source_image j))
        \<in> set (fst (generate_videos servers test_dir file_exists upload submit jobs))"
    using jin r by (force simp: g)
  show "CSubmit s (workflow_wan_i2v (vj_motion_prompt j) name (vj_seed j) 20 49)
        \<in> set (fst (generate_videos servers test_dir file_exists upload submit jobs))"
    using jin r by (force simp: g)
qed

theorem video_stage_all_or_nothing_witness:
  "\<not> files_present [''/t/hague-c01-flux_dev.png'']
       (path_join ''/t'' ''hague-c02-flux_dev.png'') \<and>
   fst (generate_videos [WRIGHT] ''/t'' (files_present [''/t/hague-c01-flux_dev.png''])
          accepts_upload accepts_submit
          [\<lparr>vj_filename = ''hague-v01-wan_i2v'', vj_model = ''wan_i2v'',
            vj_motion_prompt = ''light shifts'',
            vj_source_image = ''hague-c01-flux_dev.png'', vj_seed = 7\<rparr>,
           \<lparr>vj_filename = ''hague-v02-wan_i2v'', vj_model = ''wan_i2v'',
            vj_motion_prompt = ''rain falls'',
            vj_source_image = ''hague-c02-flux_dev.png'', vj_seed = 8\<rparr>]) = [] \<and>
   (files_present [''/t/hague-c01-flux_dev.png'']
      (path_join ''/t'' ''hague-c01-flux_dev.png'') \<and>
    MODEL_SERVER ''wan_i2v'' = Some WRIGHT \<and> WRIGHT \<in> set [WRIGHT] \<and>
    accepts_upload WRIGHT (path_join ''/t'' ''hague-c01-flux_dev.png'') = Inr ''uploaded.png'' \<and>
    accepts_submit WRIGHT (workflow_wan_i2v ''light shifts'' ''uploaded.png'' 7 20 49)
      = Inr ''prompt-1'') \<and>
   \<lparr>vj_filename = ''hague-v01-wan_i2v'', vj_model = ''wan_i2v'',
     vj_motion_prompt = ''light shifts'',
     vj_source_image = ''hague-c01-flux_dev.png'', vj_seed = 7\<rparr>
     \<in> set (submitted_jobs (snd
         (generate_videos [WRIGHT] ''/t'' (files_present [''/t/hague-c01-flux_dev.png''])
            accepts_upload accepts_submit
            [\<lparr>vj_filename = ''hague-v01-wan_i2v'', vj_model = ''wan_i2v'',
              vj_motion_prompt = ''light shifts'',
              vj_source_image = ''hague-c01-flux_dev.png'', vj_seed = 7\<rparr>])))"
proof -
  let ?j1 = "\<lparr>vj_filename = ''hague-v01-wan_i2v'', vj_model = ''wan_i2v'',
              vj_motion_prompt = ''light shifts'',
              vj_source_image = ''hague-c01-flux_dev.png'', vj_seed = 7\<rparr>"
  let ?j2 = "\<lparr>vj_filename = ''hague-v02-wan_i2v'', vj_model = ''wan_i2v'',
              vj_motion_prompt = ''rain falls'',
              vj_source_image = ''hague-c02-flux_dev.png'', vj_seed = 8\<rparr>"
  let ?fe = "files_present [''/t/hague-c01-flux_dev.png'']"
  have a: "\<exists>job \<in> set [?j1, ?j2]. \<not> ?fe (path_join ''/t'' (vj_source_image job))"
    by (simp add: files_present_def path_join_def)
  have b: "(\<forall>job \<in> set [?j1]. ?fe (path_join ''/t'' (vj_source_image job))) \<and>
    MODEL_SERVER ''wan_i2v'' = Some WRIGHT \<and> WRIGHT \<in> set [WRIGHT] \<and>
    accepts_upload WRIGHT (path_join ''/t'' ''hague-c01-flux_dev.png'') = Inr ''uploaded.png'' \<and>
    accepts_submit WRIGHT (workflow_wan_i2v ''light shifts'' ''uploaded.png'' 7 20 49)
      = Inr ''prompt-1''"
    by (simp add: files_present_def path_join_def MODEL_SERVER_def accepts_upload_def
        accepts_submit_def)
  have 1: "fst (generate_videos [WRIGHT] ''/t'' ?fe accepts_upload accepts_submit [?j1, ?j2]) = []"
    using a video_stage_all_or_nothing[of "[?j1, ?j2]" ?fe "''/t''" "[WRIGHT]"
        accepts_upload accepts_submit]
    by blast
  have 2: "?j1 \<in> set (submitted_jobs (snd
      (generate_videos [WRIGHT] ''/t'' ?fe accepts_upload accepts_submit [?j1])))"
    using b video_stage_all_or_nothing[of "[?j1]" ?fe "''/t''" "[WRIGHT]"
        accepts_upload accepts_submit ?j1 WRIGHT "''uploaded.png''" "''prompt-1''"]
    by (simp del: generate_videos_def)
  have a': "\<not> ?fe (path_join ''/t'' ''hague-c02-flux_dev.png'')"
    by (simp add: files_present_def path_join_def)
  have b': "?fe (path_join ''/t'' ''hague-c01-flux_dev.png'')"
    by (simp add: files_present_def path_join_def)
  from a' b' b 1 2 show ?thesis by blast
qed

section \<open>Properties of retrieval\<close>

lemma splitext_append: "fst (splitext p) @ snd (splitext p) = p"
  by (simp add: splitext_def Let_def)












end
